theory Spec2Isabelle
  imports Main "HOL-Library.AList" "HOL-Library.Sublist"
begin

section \<open>Data model\<close>

text \<open>
  Documents are Python dictionaries with string keys: association lists, looked up with
  \<open>map_of\<close>. The values this service stores are strings, \<open>None\<close>, datetimes (the clock is
  a natural number) and ObjectIds (held in their string form).
\<close>

type_synonym time = nat

datatype val = Str string | Null | Time time | Oid string

type_synonym doc = "(string \<times> val) list"

text \<open>\<open>Literal["unknown", "has_fb", "no_fb", "review"]\<close> of \<open>PhoneIn\<close> and \<open>PhoneUpdate\<close>.\<close>

datatype status_lit = unknown | has_fb | no_fb | review

fun status_str :: "status_lit \<Rightarrow> string" where
  "status_str unknown = ''unknown''"
| "status_str has_fb = ''has_fb''"
| "status_str no_fb = ''no_fb''"
| "status_str review = ''review''"

text \<open>\<open>class PhoneIn(BaseModel)\<close>: phone required, status defaulting to unknown.\<close>

record PhoneIn =
  in_phone :: string
  in_country :: "string option"
  in_status :: status_lit
  in_note :: "string option"

text \<open>\<open>class PhoneUpdate(BaseModel)\<close>: every field optional, default \<open>None\<close>.\<close>

record PhoneUpdate =
  up_phone :: "string option"
  up_country :: "string option"
  up_status :: "status_lit option"
  up_note :: "string option"

text \<open>
  A field of the JSON body of a PATCH request, before it becomes a \<open>PhoneUpdate\<close>: the key
  is missing, it is present with \<open>null\<close>, or it is present with a value. The model class
  declares each field \<open>Optional[...] = None\<close>, so a missing key takes the default \<open>None\<close>
  and \<open>null\<close> is the value \<open>None\<close>.
\<close>

datatype 'a body_field = Absent | JNull | Given 'a

record PhoneUpdateBody =
  body_phone :: "string body_field"
  body_country :: "string body_field"
  body_status :: "status_lit body_field"
  body_note :: "string body_field"

fun field_value :: "'a body_field \<Rightarrow> 'a option" where
  "field_value Absent = None"
| "field_value JNull = None"
| "field_value (Given x) = Some x"

definition PhoneUpdate_validate :: "PhoneUpdateBody \<Rightarrow> PhoneUpdate" where
  "PhoneUpdate_validate b =
     \<lparr> up_phone = field_value (body_phone b),
       up_country = field_value (body_country b),
       up_status = field_value (body_status b),
       up_note = field_value (body_note b) \<rparr>"

definition opt_val :: "string option \<Rightarrow> val" where
  "opt_val x = (case x of None \<Rightarrow> Null | Some s \<Rightarrow> Str s)"

text \<open>\<open>item.model_dump()\<close> of a \<open>PhoneIn\<close>: all four fields, in declaration order.\<close>

definition PhoneIn_model_dump :: "PhoneIn \<Rightarrow> doc" where
  "PhoneIn_model_dump item =
     [(''phone'', Str (in_phone item)),
      (''country'', opt_val (in_country item)),
      (''status'', Str (status_str (in_status item))),
      (''note'', opt_val (in_note item))]"

definition PhoneUpdate_model_dump :: "PhoneUpdate \<Rightarrow> doc" where
  "PhoneUpdate_model_dump data =
     [(''phone'', opt_val (up_phone data)),
      (''country'', opt_val (up_country data)),
      (''status'', opt_val (map_option status_str (up_status data))),
      (''note'', opt_val (up_note data))]"

text \<open>\<open>data.model_dump(exclude_none=True)\<close>: the fields whose value is not \<open>None\<close>.\<close>

definition model_dump_exclude_none :: "PhoneUpdate \<Rightarrow> doc" where
  "model_dump_exclude_none data = filter (\<lambda>(k, v). v \<noteq> Null) (PhoneUpdate_model_dump data)"

section \<open>Errors and responses\<close>

text \<open>
  \<open>HTTPException(status_code, detail)\<close> is what the handlers raise themselves. The other
  two are raised below them and pass through: \<open>ValidationError\<close> by the schema class,
  \<open>OperationFailure\<close> by the store.
\<close>

datatype error =
    HTTPException nat string
  | ValidationError
  | OperationFailure

datatype response =
    Items "doc list"
  | Id string
  | Inserted "string list" nat
  | Updated nat
  | Deleted nat
  | Csv string

section \<open>The document store\<close>

text \<open>Query filters, as far as the handlers build them.\<close>

datatype cond = Eq val | Regex string string

datatype clause = Field string cond | Or "(string \<times> cond) list"

type_synonym flt = "clause list"

text \<open>
  The state behind the handle \<open>db\<close>: the documents of the collection \<open>phonenumber\<close> in the
  store's natural order, and the trace of the driver calls issued so far.
\<close>

datatype call = Find flt | InsertOne doc | UpdateOne string doc | DeleteOne string

record store =
  docs :: "doc list"
  calls :: "call list"

type_synonym 'a outcome = "(error + 'a) \<times> store option"

subsection \<open>Regular expressions\<close>

text \<open>
  The store matches \<open>$regex\<close> with a Perl-compatible engine. Modelled here is the fragment
  without quantifiers, classes, groups, anchors, alternation and escapes: a pattern whose
  characters are ordinary ones, standing for themselves, and the dot, standing for any
  character but a line feed. What the engine does with any other pattern is the parameter
  \<open>other\<close> of type \<open>regex_engine\<close>, from pattern and options to the compiled matcher,
  \<open>None\<close> when the store rejects the pattern.
\<close>

type_synonym regex_engine = "string \<Rightarrow> string \<Rightarrow> (string \<Rightarrow> bool) option"

definition metachars :: "char list" where
  "metachars = [CHR 0x5C, CHR ''^'', CHR ''$'', CHR ''.'', CHR ''['', CHR '']'', CHR ''|'',
                CHR ''('', CHR '')'', CHR ''?'', CHR ''*'', CHR ''+'', CHR ''{'', CHR ''}'']"

datatype atom = Lit char | AnyChar

fun parse_atoms :: "string \<Rightarrow> atom list option" where
  "parse_atoms [] = Some []"
| "parse_atoms (c # cs) =
     (if c = CHR ''.'' then map_option ((#) AnyChar) (parse_atoms cs)
      else if c \<in> set metachars then None
      else map_option ((#) (Lit c)) (parse_atoms cs))"

text \<open>Case folding of the option \<open>i\<close>, on ASCII letters.\<close>

definition lower :: "char \<Rightarrow> char" where
  "lower c =
     (case map_of (zip ''ABCDEFGHIJKLMNOPQRSTUVWXYZ'' ''abcdefghijklmnopqrstuvwxyz'') c of
        None \<Rightarrow> c
      | Some l \<Rightarrow> l)"

fun atom_matches :: "atom \<Rightarrow> char \<Rightarrow> bool" where
  "atom_matches (Lit a) c = (lower a = lower c)"
| "atom_matches AnyChar c = (c \<noteq> CHR 0x0A)"

fun match_here :: "atom list \<Rightarrow> string \<Rightarrow> bool" where
  "match_here [] s = True"
| "match_here (a # as) [] = False"
| "match_here (a # as) (c # cs) = (atom_matches a c \<and> match_here as cs)"

text \<open>An unanchored search: the pattern matches at some position of the subject.\<close>

fun regex_search :: "atom list \<Rightarrow> string \<Rightarrow> bool" where
  "regex_search as [] = match_here as []"
| "regex_search as (c # cs) = (match_here as (c # cs) \<or> regex_search as cs)"

definition regex_compile :: "regex_engine \<Rightarrow> string \<Rightarrow> string \<Rightarrow> (string \<Rightarrow> bool) option" where
  "regex_compile other pat opts =
     (if opts = ''i'' then
        (case parse_atoms pat of
           Some as \<Rightarrow> Some (regex_search as)
         | None \<Rightarrow> other pat opts)
      else other pat opts)"

subsection \<open>Matching a document against a filter\<close>

text \<open>
  A condition on a field: equality with a value, or a regular expression, which only a
  string value can match (a missing field, \<open>null\<close>, a date or an id never does).
  \<open>None\<close> is the store rejecting the query.
\<close>

fun compile_cond :: "regex_engine \<Rightarrow> string \<Rightarrow> cond \<Rightarrow> (doc \<Rightarrow> bool) option" where
  "compile_cond other k (Eq v) = Some (\<lambda>d. map_of d k = Some v)"
| "compile_cond other k (Regex pat opts) =
     (case regex_compile other pat opts of
        None \<Rightarrow> None
      | Some m \<Rightarrow> Some (\<lambda>d. case map_of d k of Some (Str s) \<Rightarrow> m s | _ \<Rightarrow> False))"

fun compile_or :: "regex_engine \<Rightarrow> (string \<times> cond) list \<Rightarrow> (doc \<Rightarrow> bool) option" where
  "compile_or other [] = Some (\<lambda>d. False)"
| "compile_or other ((k, c) # alts) =
     (case compile_cond other k c of
        None \<Rightarrow> None
      | Some p \<Rightarrow> (case compile_or other alts of
                     None \<Rightarrow> None
                   | Some r \<Rightarrow> Some (\<lambda>d. p d \<or> r d)))"

fun compile_clause :: "regex_engine \<Rightarrow> clause \<Rightarrow> (doc \<Rightarrow> bool) option" where
  "compile_clause other (Field k c) = compile_cond other k c"
| "compile_clause other (Or alts) = compile_or other alts"

text \<open>The clauses of a filter dictionary hold together; the empty filter matches all.\<close>

fun compile_flt :: "regex_engine \<Rightarrow> flt \<Rightarrow> (doc \<Rightarrow> bool) option" where
  "compile_flt other [] = Some (\<lambda>d. True)"
| "compile_flt other (cl # cls) =
     (case compile_clause other cl of
        None \<Rightarrow> None
      | Some p \<Rightarrow> (case compile_flt other cls of
                     None \<Rightarrow> None
                   | Some r \<Rightarrow> Some (\<lambda>d. p d \<and> r d)))"

subsection \<open>Driver calls\<close>

definition log_call :: "call \<Rightarrow> store \<Rightarrow> store" where
  "log_call c s = s\<lparr>calls := calls s @ [c]\<rparr>"

text \<open>\<open>db[COLLECTION].find(flt)\<close>, read to the end.\<close>

definition find_docs :: "regex_engine \<Rightarrow> store \<Rightarrow> flt \<Rightarrow> (error + doc list) \<times> store" where
  "find_docs other s f =
     (case compile_flt other f of
        None \<Rightarrow> (Inl OperationFailure, log_call (Find f) s)
      | Some p \<Rightarrow> (Inr (filter p (docs s)), log_call (Find f) s))"

text \<open>\<open>{"$set": update_doc}\<close> on one document: each key is overwritten or added.\<close>

definition apply_set :: "doc \<Rightarrow> doc \<Rightarrow> doc" where
  "apply_set upd d = fold (\<lambda>(k, v). AList.update k v) upd d"

definition has_id :: "string \<Rightarrow> doc \<Rightarrow> bool" where
  "has_id oid d = (map_of d ''_id'' = Some (Oid oid))"

text \<open>
  \<open>update_one({"_id": oid}, {"$set": upd})\<close>: the first document with that id is updated;
  the result is the new collection and \<open>modified_count\<close>, which is 1 when that document
  changed and 0 when none matched or the update left it as it was.
\<close>

fun update_first :: "string \<Rightarrow> doc \<Rightarrow> doc list \<Rightarrow> doc list \<times> nat" where
  "update_first oid upd [] = ([], 0)"
| "update_first oid upd (d # ds) =
     (if has_id oid d
      then (apply_set upd d # ds, if apply_set upd d = d then 0 else 1)
      else (d # fst (update_first oid upd ds), snd (update_first oid upd ds)))"

definition update_one :: "store \<Rightarrow> string \<Rightarrow> doc \<Rightarrow> nat \<times> store" where
  "update_one s oid upd =
     (snd (update_first oid upd (docs s)),
      log_call (UpdateOne oid upd) (s\<lparr>docs := fst (update_first oid upd (docs s))\<rparr>))"

text \<open>\<open>delete_one({"_id": oid})\<close>: the first document with that id is removed.\<close>

fun delete_first :: "string \<Rightarrow> doc list \<Rightarrow> doc list \<times> nat" where
  "delete_first oid [] = ([], 0)"
| "delete_first oid (d # ds) =
     (if has_id oid d then (ds, 1)
      else (d # fst (delete_first oid ds), snd (delete_first oid ds)))"

definition delete_one :: "store \<Rightarrow> string \<Rightarrow> nat \<times> store" where
  "delete_one s oid =
     (snd (delete_first oid (docs s)),
      log_call (DeleteOne oid) (s\<lparr>docs := fst (delete_first oid (docs s))\<rparr>))"

section \<open>Helpers of \<open>database.py\<close> and \<open>schemas.py\<close>\<close>

text \<open>
  Modelled from the spec: \<open>get_documents(collection, filter, limit)\<close> of \<open>database.py\<close>,
  which is not among the sources. The spec has the list endpoint return the matching
  records in the store's natural order, "\<open>limit\<close> truncates only".
\<close>

definition get_documents ::
  "regex_engine \<Rightarrow> store \<Rightarrow> flt \<Rightarrow> int option \<Rightarrow> (error + doc list) \<times> store" where
  "get_documents other s f limit =
     (case find_docs other s f of
        (Inl e, s') \<Rightarrow> (Inl e, s')
      | (Inr rows, s') \<Rightarrow>
          (Inr (case limit of None \<Rightarrow> rows | Some n \<Rightarrow> take (nat n) rows), s'))"

text \<open>
  Modelled from the spec: \<open>create_document(collection, item)\<close> of \<open>database.py\<close>, which is
  not among the sources. The spec has the store assign the id at creation and expose it as
  a string, \<open>created_at\<close> set once at insert, and an insertion that may fail. The id the
  store assigns (\<open>new_id\<close>), the clock (\<open>now\<close>) and the items the store refuses
  (\<open>rejects\<close>, on the item's fields) are parameters.
\<close>

definition create_document ::
  "(doc \<Rightarrow> bool) \<Rightarrow> time \<Rightarrow> string \<Rightarrow> store \<Rightarrow> PhoneIn \<Rightarrow> (error + string) \<times> store" where
  "create_document rejects now new_id s data =
     (let d = PhoneIn_model_dump data @ [(''created_at'', Time now)] in
      if rejects (PhoneIn_model_dump data) then (Inl OperationFailure, log_call (InsertOne d) s)
      else (Inr new_id,
            log_call (InsertOne d) (s\<lparr>docs := docs s @ [(''_id'', Oid new_id) # d]\<rparr>)))"

text \<open>
  \<open>PhoneNumberSchema\<close> of \<open>schemas.py\<close> is not among the sources either. It is a
  parameter of the handlers that call it: a predicate on the keyword arguments
  \<open>item.model_dump()\<close>, false when the constructor raises.
\<close>

type_synonym schema = "doc \<Rightarrow> bool"

section \<open>The handlers of \<open>main.py\<close>\<close>

text \<open>
  Each handler takes the module-level handle \<open>db\<close> (\<open>None\<close> when no connection was ever
  made) and returns what it returns or raises, with the store as it leaves it.
\<close>

definition db_unavailable :: error where
  "db_unavailable = HTTPException 500 ''Database not available''"

subsection \<open>GET /phones\<close>

text \<open>
  The filter of \<open>list_phones\<close> and \<open>export_phones\<close> (the two build the same dictionary):
  \<open>if status:\<close> and \<open>if q:\<close> are false for \<open>None\<close> and for the empty string.
\<close>

definition phones_filter :: "string option \<Rightarrow> string option \<Rightarrow> flt" where
  "phones_filter status q =
     (case status of
        None \<Rightarrow> []
      | Some st \<Rightarrow> if st = [] then [] else [Field ''status'' (Eq (Str st))]) @
     (case q of
        None \<Rightarrow> []
      | Some pat \<Rightarrow> if pat = [] then []
                    else [Or [(''phone'', Regex pat ''i''),
                              (''note'', Regex pat ''i''),
                              (''country'', Regex pat ''i'')]])"

text \<open>
  Python's \<open>str\<close> on a stored value. \<open>isoformat sep t\<close> is \<open>datetime.isoformat\<close> with
  separator \<open>sep\<close>: \<open>str\<close> of a datetime uses a space, \<open>.isoformat()\<close> a \<open>T\<close>.
\<close>

fun py_str :: "(char \<Rightarrow> time \<Rightarrow> string) \<Rightarrow> val \<Rightarrow> string" where
  "py_str isoformat (Str s) = s"
| "py_str isoformat Null = ''None''"
| "py_str isoformat (Time t) = isoformat CHR '' '' t"
| "py_str isoformat (Oid x) = x"

definition dict_get :: "doc \<Rightarrow> string \<Rightarrow> val \<Rightarrow> val" where
  "dict_get d k dflt = (case map_of d k of None \<Rightarrow> dflt | Some v \<Rightarrow> v)"

definition iso_field :: "(char \<Rightarrow> time \<Rightarrow> string) \<Rightarrow> string \<Rightarrow> doc \<Rightarrow> doc" where
  "iso_field isoformat k d =
     (case map_of d k of
        Some (Time t) \<Rightarrow> AList.update k (Str (isoformat CHR ''T'' t)) d
      | _ \<Rightarrow> d)"

text \<open>The body of the loop "Convert ObjectId" (lines 96 to 101).\<close>

definition convert_doc :: "(char \<Rightarrow> time \<Rightarrow> string) \<Rightarrow> doc \<Rightarrow> doc" where
  "convert_doc isoformat d =
     iso_field isoformat ''updated_at''
       (iso_field isoformat ''created_at''
          (AList.update ''id'' (Str (py_str isoformat (dict_get d ''_id'' (Str ''''))))
             (AList.delete ''_id'' d)))"

text \<open>
  The bounds of \<open>limit\<close> (1 to 5000, default 500) are checked by the framework before the
  body runs; the body is what is modelled.
\<close>

definition list_phones ::
  "regex_engine \<Rightarrow> (char \<Rightarrow> time \<Rightarrow> string) \<Rightarrow> store option \<Rightarrow>
     string option \<Rightarrow> string option \<Rightarrow> int option \<Rightarrow> response outcome" where
  "list_phones other isoformat db status q limit =
     (case db of
        None \<Rightarrow> (Inl db_unavailable, None)
      | Some s \<Rightarrow>
          (case get_documents other s (phones_filter status q) limit of
             (Inl e, s') \<Rightarrow> (Inl e, Some s')
           | (Inr ds, s') \<Rightarrow> (Inr (Items (map (convert_doc isoformat) ds)), Some s')))"

subsection \<open>POST /phones\<close>

definition add_phone ::
  "schema \<Rightarrow> (doc \<Rightarrow> bool) \<Rightarrow> time \<Rightarrow> string \<Rightarrow> store option \<Rightarrow> PhoneIn \<Rightarrow>
     response outcome" where
  "add_phone PhoneNumberSchema rejects now new_id db item =
     (case db of
        None \<Rightarrow> (Inl db_unavailable, None)
      | Some s \<Rightarrow>
          if \<not> PhoneNumberSchema (PhoneIn_model_dump item) then (Inl ValidationError, Some s)
          else (case create_document rejects now new_id s item of
                  (Inl e, s') \<Rightarrow> (Inl e, Some s')
                | (Inr i, s') \<Rightarrow> (Inr (Id i), Some s')))"

subsection \<open>POST /phones/bulk\<close>

record BulkPhones =
  items :: "PhoneIn list"

text \<open>
  The loop over \<open>payload.items\<close>. The \<open>i\<close>-th item is handled at clock reading \<open>now i\<close>
  and would be given the id \<open>new_id i\<close>. \<open>except Exception: continue\<close> catches what the
  schema raises and what \<open>create_document\<close> raises alike.
\<close>

fun bulk_loop ::
  "schema \<Rightarrow> (doc \<Rightarrow> bool) \<Rightarrow> (nat \<Rightarrow> time) \<Rightarrow> (nat \<Rightarrow> string) \<Rightarrow> nat \<Rightarrow>
     PhoneIn list \<Rightarrow> string list \<Rightarrow> store \<Rightarrow> string list \<times> store" where
  "bulk_loop PhoneNumberSchema rejects now new_id i [] inserted s = (inserted, s)"
| "bulk_loop PhoneNumberSchema rejects now new_id i (item # rest) inserted s =
     (if \<not> PhoneNumberSchema (PhoneIn_model_dump item)
      then bulk_loop PhoneNumberSchema rejects now new_id (Suc i) rest inserted s
      else (case create_document rejects (now i) (new_id i) s item of
              (Inl e, s') \<Rightarrow>
                bulk_loop PhoneNumberSchema rejects now new_id (Suc i) rest inserted s'
            | (Inr nid, s') \<Rightarrow>
                bulk_loop PhoneNumberSchema rejects now new_id (Suc i) rest
                  (inserted @ [nid]) s'))"

definition add_phones_bulk ::
  "schema \<Rightarrow> (doc \<Rightarrow> bool) \<Rightarrow> (nat \<Rightarrow> time) \<Rightarrow> (nat \<Rightarrow> string) \<Rightarrow> store option \<Rightarrow>
     BulkPhones \<Rightarrow> response outcome" where
  "add_phones_bulk PhoneNumberSchema rejects now new_id db payload =
     (case db of
        None \<Rightarrow> (Inl db_unavailable, None)
      | Some s \<Rightarrow>
          (case bulk_loop PhoneNumberSchema rejects now new_id 0 (items payload) [] s of
             (inserted, s') \<Rightarrow> (Inr (Inserted inserted (length inserted)), Some s')))"

subsection \<open>PATCH /phones/{item_id}\<close>

text \<open>
  The module-level name \<open>ObjectId\<close> is \<open>None\<close> when the import failed, and otherwise the
  constructor, which raises on a string that is not an id: \<open>None\<close> on such a string.
\<close>

definition update_phone ::
  "(string \<Rightarrow> string option) option \<Rightarrow> time \<Rightarrow> store option \<Rightarrow> string \<Rightarrow> PhoneUpdate \<Rightarrow>
     response outcome" where
  "update_phone ObjectId now db item_id data =
     (case db of
        None \<Rightarrow> (Inl db_unavailable, None)
      | Some s \<Rightarrow>
          (case ObjectId of
             None \<Rightarrow> (Inl (HTTPException 500 ''ObjectId not available''), Some s)
           | Some mk \<Rightarrow>
               (case mk item_id of
                  None \<Rightarrow> (Inl (HTTPException 400 ''Invalid id''), Some s)
                | Some oid \<Rightarrow>
                    (let update_doc = model_dump_exclude_none data in
                     if update_doc = [] then (Inr (Updated 0), Some s)
                     else (case update_one s oid (update_doc @ [(''updated_at'', Time now)]) of
                             (modified_count, s') \<Rightarrow>
                               (Inr (Updated modified_count), Some s'))))))"

subsection \<open>DELETE /phones/{item_id}\<close>

definition delete_phone ::
  "(string \<Rightarrow> string option) option \<Rightarrow> store option \<Rightarrow> string \<Rightarrow> response outcome" where
  "delete_phone ObjectId db item_id =
     (case db of
        None \<Rightarrow> (Inl db_unavailable, None)
      | Some s \<Rightarrow>
          (case ObjectId of
             None \<Rightarrow> (Inl (HTTPException 500 ''ObjectId not available''), Some s)
           | Some mk \<Rightarrow>
               (case mk item_id of
                  None \<Rightarrow> (Inl (HTTPException 400 ''Invalid id''), Some s)
                | Some oid \<Rightarrow>
                    (case delete_one s oid of
                       (deleted_count, s') \<Rightarrow> (Inr (Deleted deleted_count), Some s')))))"

subsection \<open>GET /phones/export\<close>

text \<open>
  \<open>csv.DictWriter\<close> with the default dialect: fields joined by commas, a field holding a
  comma, a double quote, a carriage return or a line feed is put in double quotes with its
  double quotes doubled, and every row ends in carriage return and line feed. \<open>None\<close> is
  written as the empty field, any other value as its \<open>str\<close>.
\<close>

definition csv_text :: "(char \<Rightarrow> time \<Rightarrow> string) \<Rightarrow> val \<Rightarrow> string" where
  "csv_text isoformat v = (case v of Null \<Rightarrow> [] | _ \<Rightarrow> py_str isoformat v)"

definition csv_special :: "char \<Rightarrow> bool" where
  "csv_special c = (c = CHR '','' \<or> c = CHR 0x22 \<or> c = CHR 0x0D \<or> c = CHR 0x0A)"

definition csv_field :: "string \<Rightarrow> string" where
  "csv_field f =
     (if list_ex csv_special f
      then [CHR 0x22] @ concat (map (\<lambda>c. if c = CHR 0x22 then [c, c] else [c]) f) @ [CHR 0x22]
      else f)"

fun join_fields :: "string list \<Rightarrow> string" where
  "join_fields [] = []"
| "join_fields [f] = f"
| "join_fields (f # g # fs) = f @ [CHR '',''] @ join_fields (g # fs)"

definition writerow :: "(char \<Rightarrow> time \<Rightarrow> string) \<Rightarrow> val list \<Rightarrow> string" where
  "writerow isoformat row =
     join_fields (map (csv_field \<circ> csv_text isoformat) row) @ [CHR 0x0D, CHR 0x0A]"

definition headers :: "string list" where
  "headers = [''phone'', ''country'', ''status'', ''note'']"

text \<open>The dictionary handed to \<open>writer.writerow\<close> for the record \<open>r\<close>, in header order.\<close>

definition export_row :: "doc \<Rightarrow> val list" where
  "export_row r =
     [dict_get r ''phone'' (Str ''''), dict_get r ''country'' (Str ''''),
      dict_get r ''status'' (Str ''''), dict_get r ''note'' (Str '''')]"

definition export_phones ::
  "regex_engine \<Rightarrow> (char \<Rightarrow> time \<Rightarrow> string) \<Rightarrow> store option \<Rightarrow>
     string option \<Rightarrow> string option \<Rightarrow> response outcome" where
  "export_phones other isoformat db status q =
     (case db of
        None \<Rightarrow> (Inl db_unavailable, None)
      | Some s \<Rightarrow>
          (case find_docs other s (phones_filter status q) of
             (Inl e, s') \<Rightarrow> (Inl e, Some s')
           | (Inr rows, s') \<Rightarrow>
               (Inr (Csv (foldl (\<lambda>output r. output @ writerow isoformat (export_row r))
                            (writerow isoformat (map Str headers)) rows)),
                Some s')))"

section \<open>What the spec calls a match\<close>

text \<open>
  The spec's words for the free-text query: \<open>q\<close> occurs in the field as a substring, case
  not regarded; a record matches when that holds of its phone, its note or its country.
\<close>

definition contains_ci :: "string \<Rightarrow> string \<Rightarrow> bool" where
  "contains_ci q s = sublist (map lower q) (map lower s)"

definition field_contains :: "string \<Rightarrow> doc \<Rightarrow> string \<Rightarrow> bool" where
  "field_contains q d k = (case map_of d k of Some (Str s) \<Rightarrow> contains_ci q s | _ \<Rightarrow> False)"

definition spec_matches :: "string \<Rightarrow> doc \<Rightarrow> bool" where
  "spec_matches q d =
     (field_contains q d ''phone'' \<or> field_contains q d ''note'' \<or> field_contains q d ''country'')"

text \<open>A bulk item is inserted when the schema accepts it and the store does not refuse it.\<close>

definition item_ok :: "schema \<Rightarrow> (doc \<Rightarrow> bool) \<Rightarrow> PhoneIn \<Rightarrow> bool" where
  "item_ok PhoneNumberSchema rejects item =
     (PhoneNumberSchema (PhoneIn_model_dump item) \<and> \<not> rejects (PhoneIn_model_dump item))"

text \<open>The document \<open>create_document\<close> stores for an item.\<close>

definition stored_doc :: "time \<Rightarrow> string \<Rightarrow> PhoneIn \<Rightarrow> doc" where
  "stored_doc now new_id item =
     (''_id'', Oid new_id) # PhoneIn_model_dump item @ [(''created_at'', Time now)]"

text \<open>The dictionary \<open>update_doc\<close> as \<open>update_phone\<close> hands it to the store (line 144).\<close>

definition update_set :: "time \<Rightarrow> PhoneUpdate \<Rightarrow> doc" where
  "update_set now data = model_dump_exclude_none data @ [(''updated_at'', Time now)]"

text \<open>A request body with every field sent as \<open>null\<close> left out instead.\<close>

definition nulls_dropped :: "PhoneUpdateBody \<Rightarrow> PhoneUpdateBody" where
  "nulls_dropped b =
     \<lparr> body_phone = (case body_phone b of JNull \<Rightarrow> Absent | f \<Rightarrow> f),
       body_country = (case body_country b of JNull \<Rightarrow> Absent | f \<Rightarrow> f),
       body_status = (case body_status b of JNull \<Rightarrow> Absent | f \<Rightarrow> f),
       body_note = (case body_note b of JNull \<Rightarrow> Absent | f \<Rightarrow> f) \<rparr>"

text \<open>
  The spec's words for the rows an export holds: the records with the status asked for
  (when one is given) in which the query (when one is given) occurs as a substring.
\<close>

definition export_selects :: "string option \<Rightarrow> string option \<Rightarrow> doc \<Rightarrow> bool" where
  "export_selects status q d =
     ((case status of None \<Rightarrow> True
       | Some st \<Rightarrow> st = [] \<or> map_of d ''status'' = Some (Str st))
      \<and> (case q of None \<Rightarrow> True | Some pat \<Rightarrow> pat = [] \<or> spec_matches pat d))"

text \<open>A query is literal when it holds no metacharacter of regular expressions.\<close>

definition literal_query :: "string option \<Rightarrow> bool" where
  "literal_query q =
     (case q of None \<Rightarrow> True | Some pat \<Rightarrow> list_all (\<lambda>c. c \<notin> set metachars) pat)"

text \<open>
  The spec's words for a field of an exported row: the field of the record as text, and
  the empty string when the record lacks the field or holds \<open>null\<close> there.
\<close>

definition cell :: "(char \<Rightarrow> time \<Rightarrow> string) \<Rightarrow> doc \<Rightarrow> string \<Rightarrow> string" where
  "cell isoformat r k =
     (case map_of r k of None \<Rightarrow> [] | Some Null \<Rightarrow> [] | Some v \<Rightarrow> py_str isoformat v)"

text \<open>
  What a reader of CSV makes of a text (RFC 4180): rows end in carriage return and line
  feed, fields are separated by commas, a field may stand in double quotes, and inside
  the quotes a doubled double quote stands for one and commas and line breaks are part of
  the field. The reader keeps the field being read and the fields of the row read so far;
  \<open>None\<close> is a text that is not CSV.
\<close>

datatype csv_mode = Plain | Quoted | Closing

fun csv_read_from ::
  "csv_mode \<Rightarrow> string \<Rightarrow> string list \<Rightarrow> string \<Rightarrow> string list list option" where
  "csv_read_from m fld row [] =
     (if m = Quoted then None
      else if m = Plain \<and> fld = [] \<and> row = [] then Some []
      else Some [row @ [fld]])"
| "csv_read_from m fld row (c # cs) =
     (if m = Quoted then
        (if c = CHR 0x22 then csv_read_from Closing fld row cs
         else csv_read_from Quoted (fld @ [c]) row cs)
      else if c = CHR 0x22 then
        (if m = Closing then csv_read_from Quoted (fld @ [c]) row cs
         else if fld = [] then csv_read_from Quoted [] row cs
         else None)
      else if c = CHR '','' then csv_read_from Plain [] (row @ [fld]) cs
      else if c = CHR 0x0D then
        (case cs of
           [] \<Rightarrow> None
         | d # ds \<Rightarrow> if d = CHR 0x0A
                     then map_option ((#) (row @ [fld])) (csv_read_from Plain [] [] ds)
                     else None)
      else if c = CHR 0x0A \<or> m = Closing then None
      else csv_read_from Plain (fld @ [c]) row cs)"

definition csv_read :: "string \<Rightarrow> string list list option" where
  "csv_read text = csv_read_from Plain [] [] text"

text \<open>
  The text \<open>export_phones\<close> builds for the rows the store returns: \<open>writeheader\<close>, then one
  \<open>writerow\<close> for each (lines 180 to 187).
\<close>

definition export_text :: "(char \<Rightarrow> time \<Rightarrow> string) \<Rightarrow> doc list \<Rightarrow> string" where
  "export_text isoformat rows =
     writerow isoformat (map Str headers)
       @ concat (map (\<lambda>r. writerow isoformat (export_row r)) rows)"

section \<open>Example data\<close>

text \<open>
  The id constructor of the driver on a string, by its documented format: 24 hexadecimal
  digits, read without regard to case.
\<close>

definition bson_ObjectId :: "string \<Rightarrow> string option" where
  "bson_ObjectId x =
     (if length x = 24 \<and> list_all (\<lambda>c. c \<in> set ''0123456789abcdefABCDEF'') x
      then Some (map lower x) else None)"

definition no_other_regex :: regex_engine where
  "no_other_regex pat opts = None"

definition iso0 :: "char \<Rightarrow> time \<Rightarrow> string" where
  "iso0 sep t = ''2024-01-01'' @ [sep] @ ''00:00:00+00:00''"

definition rec_a :: doc where
  "rec_a = [(''_id'', Oid ''0123456789abcdef01234567''), (''phone'', Str ''555-1234''),
            (''country'', Null), (''status'', Str ''has_fb''), (''note'', Null),
            (''created_at'', Time 1)]"

definition rec_b :: doc where
  "rec_b = [(''_id'', Oid ''0123456789abcdef01234568''), (''phone'', Str ''+1 202 0100''),
            (''country'', Str ''US''), (''status'', Str ''unknown''),
            (''note'', Str ''see 555, again''), (''created_at'', Time 2)]"

definition rec_c :: doc where
  "rec_c = [(''_id'', Oid ''0123456789abcdef01234569''), (''phone'', Str ''+44 20 7946''),
            (''status'', Str ''has_fb'')]"

definition store0 :: store where
  "store0 = \<lparr>docs = [rec_a, rec_b, rec_c], calls = []\<rparr>"

definition item_good :: PhoneIn where
  "item_good = \<lparr>in_phone = ''111'', in_country = None, in_status = unknown, in_note = None\<rparr>"

definition item_bad :: PhoneIn where
  "item_bad = \<lparr>in_phone = '''', in_country = None, in_status = review, in_note = None\<rparr>"

definition item_late :: PhoneIn where
  "item_late = \<lparr>in_phone = ''222'', in_country = Some ''FR'', in_status = no_fb,
                 in_note = Some ''x''\<rparr>"

text \<open>An example of a stricter schema: the phone must not be empty.\<close>

definition schema0 :: schema where
  "schema0 kw = (case map_of kw ''phone'' of Some (Str p) \<Rightarrow> p \<noteq> [] | _ \<Rightarrow> False)"

definition no_update :: PhoneUpdate where
  "no_update = \<lparr>up_phone = None, up_country = None, up_status = None, up_note = None\<rparr>"

definition note_update :: PhoneUpdate where
  "note_update = \<lparr>up_phone = None, up_country = None, up_status = Some review,
                   up_note = Some ''called''\<rparr>"

definition null_body :: PhoneUpdateBody where
  "null_body = \<lparr>body_phone = Absent, body_country = JNull, body_status = Given review,
                 body_note = JNull\<rparr>"

definition clock0 :: "nat \<Rightarrow> time" where
  "clock0 i = 10 + i"

definition ids0 :: "nat \<Rightarrow> string" where
  "ids0 i = (if i = 0 then ''65a000000000000000000000''
             else if i = 1 then ''65a000000000000000000001''
             else ''65a000000000000000000002'')"

definition bulk0 :: BulkPhones where
  "bulk0 = \<lparr>items = [item_good, item_bad, item_late]\<rparr>"

section \<open>Store unavailable\<close>

text \<open>
  C8. When the store handle was never established (\<open>db\<close> is \<open>None\<close>), each of the six
  data-touching handlers (list, create, bulk create, update, delete, export) raises the
  server error 500 "Database not available", whatever the request, and does nothing
  else: there is still no store afterwards.
\<close>

theorem store_unavailable_is_server_error:
  "list_phones other isoformat None status q limit
     = (Inl (HTTPException 500 ''Database not available''), None)
   \<and> add_phone PhoneNumberSchema rejects now new_id None item
     = (Inl (HTTPException 500 ''Database not available''), None)
   \<and> add_phones_bulk PhoneNumberSchema rejects nows new_ids None payload
     = (Inl (HTTPException 500 ''Database not available''), None)
   \<and> update_phone ObjectId now None item_id data
     = (Inl (HTTPException 500 ''Database not available''), None)
   \<and> delete_phone ObjectId None item_id
     = (Inl (HTTPException 500 ''Database not available''), None)
   \<and> export_phones other isoformat None status q
     = (Inl (HTTPException 500 ''Database not available''), None)"
  by (simp add: list_phones_def add_phone_def add_phones_bulk_def update_phone_def
        delete_phone_def export_phones_def db_unavailable_def)

section \<open>Empty filter parameters\<close>

text \<open>
  C9. In a list or export request, a status or a free-text query given as the empty string
  is treated as if it were not given: the filter built is the same (no status clause, no
  text clause), and so is everything the handler returns and does.
\<close>

theorem empty_parameter_is_absent:
  "phones_filter (Some []) q = phones_filter None q
   \<and> phones_filter status (Some []) = phones_filter status None
   \<and> phones_filter (Some []) (Some []) = []
   \<and> list_phones other isoformat db (Some []) q limit = list_phones other isoformat db None q limit
   \<and> list_phones other isoformat db status (Some []) limit
       = list_phones other isoformat db status None limit
   \<and> export_phones other isoformat db (Some []) q = export_phones other isoformat db None q
   \<and> export_phones other isoformat db status (Some [])
       = export_phones other isoformat db status None"
proof -
  have st: "phones_filter (Some []) q' = phones_filter None q'" for q'
    by (simp add: phones_filter_def)
  have qu: "phones_filter status' (Some []) = phones_filter status' None" for status'
    by (simp add: phones_filter_def)
  show ?thesis
    unfolding list_phones_def export_phones_def st qu by (simp add: phones_filter_def)
qed

section \<open>Malformed identifiers\<close>

text \<open>
  C3. With the store handle established and the id class imported, an update or delete
  whose id string the id constructor refuses raises the client error 400 "Invalid id".
  That is neither the server error of a missing store nor a count of zero (which is how
  an id that matches nothing is reported), and the store is left exactly as it was,
  its trace of calls included: no store call is made.
\<close>

theorem malformed_id_is_client_error:
  assumes "mk item_id = None"
  shows "update_phone (Some mk) now (Some s) item_id data
           = (Inl (HTTPException 400 ''Invalid id''), Some s)
         \<and> delete_phone (Some mk) (Some s) item_id
           = (Inl (HTTPException 400 ''Invalid id''), Some s)
         \<and> fst (update_phone (Some mk) now (Some s) item_id data) \<noteq> Inl db_unavailable
         \<and> fst (delete_phone (Some mk) (Some s) item_id) \<noteq> Inl db_unavailable
         \<and> fst (update_phone (Some mk) now (Some s) item_id data) \<noteq> Inr (Updated 0)
         \<and> fst (delete_phone (Some mk) (Some s) item_id) \<noteq> Inr (Deleted 0)"
  using assms by (simp add: update_phone_def delete_phone_def db_unavailable_def)

theorem malformed_id_is_client_error_witness:
  "bson_ObjectId ''not-an-id'' = None
   \<and> update_phone (Some bson_ObjectId) 7 (Some store0) ''not-an-id'' note_update
       = (Inl (HTTPException 400 ''Invalid id''), Some store0)
   \<and> delete_phone (Some bson_ObjectId) (Some store0) ''not-an-id''
       = (Inl (HTTPException 400 ''Invalid id''), Some store0)"
proof -
  have h: "bson_ObjectId ''not-an-id'' = None"
    by (simp add: bson_ObjectId_def)
  show ?thesis
    using h malformed_id_is_client_error [where mk = bson_ObjectId
        and item_id = "''not-an-id''" and now = 7 and s = store0 and data = note_update]
    by simp
qed

section \<open>Updates\<close>

text \<open>
  C2. With the store handle established and the id class imported, an update with a
  well-formed id in which no field is supplied returns \<open>{updated: 0}\<close> and leaves the
  store exactly as it was: no write, no call, every record (its \<open>updated_at\<close> included)
  unchanged.
\<close>

theorem empty_update_is_noop:
  assumes "mk item_id = Some oid"
    and "up_phone data = None" and "up_country data = None"
    and "up_status data = None" and "up_note data = None"
  shows "update_phone (Some mk) now (Some s) item_id data = (Inr (Updated 0), Some s)"
  using assms
  by (simp add: update_phone_def model_dump_exclude_none_def PhoneUpdate_model_dump_def
        opt_val_def)

theorem empty_update_is_noop_witness:
  "bson_ObjectId ''0123456789ABCDEF01234567'' = Some ''0123456789abcdef01234567''
   \<and> up_phone no_update = None \<and> up_country no_update = None
   \<and> up_status no_update = None \<and> up_note no_update = None
   \<and> update_phone (Some bson_ObjectId) 7 (Some store0) ''0123456789ABCDEF01234567'' no_update
       = (Inr (Updated 0), Some store0)"
proof -
  have h: "bson_ObjectId ''0123456789ABCDEF01234567'' = Some ''0123456789abcdef01234567''"
    by (simp add: bson_ObjectId_def lower_def)
  have n: "up_phone no_update = None" "up_country no_update = None"
    "up_status no_update = None" "up_note no_update = None"
    by (simp_all add: no_update_def)
  show ?thesis
    using h n empty_update_is_noop [where mk = bson_ObjectId
        and item_id = "''0123456789ABCDEF01234567''" and data = no_update and now = 7
        and s = store0]
    by simp
qed

section \<open>Single create\<close>

text \<open>
  C4. In a single create the candidate is checked against the second schema before any
  insertion: when the schema refuses it, the handler raises (with a store, the schema's
  validation error; without one, the server error), no id is returned, and the store is
  left as it was, with no insert call issued.
\<close>

theorem add_phone_schema_failure_is_error:
  assumes "\<not> PhoneNumberSchema (PhoneIn_model_dump item)"
  shows "add_phone PhoneNumberSchema rejects now new_id (Some s) item
           = (Inl ValidationError, Some s)
         \<and> (\<exists>e. add_phone PhoneNumberSchema rejects now new_id db item = (Inl e, db))
         \<and> (\<forall>r. fst (add_phone PhoneNumberSchema rejects now new_id db item) \<noteq> Inr r)"
  using assms by (cases db) (simp_all add: add_phone_def)

theorem add_phone_schema_failure_is_error_witness:
  "\<not> schema0 (PhoneIn_model_dump item_bad)
   \<and> add_phone schema0 (\<lambda>d. False) 7 ''0123456789abcdef0123456a'' (Some store0) item_bad
       = (Inl ValidationError, Some store0)"
proof -
  have h: "\<not> schema0 (PhoneIn_model_dump item_bad)"
    by (simp add: schema0_def PhoneIn_model_dump_def item_bad_def)
  show ?thesis
    using h add_phone_schema_failure_is_error [where PhoneNumberSchema = schema0
        and item = item_bad and rejects = "\<lambda>d. False" and now = 7
        and new_id = "''0123456789abcdef0123456a''" and s = store0 and db = "Some store0"]
    by simp
qed

section \<open>Facts about the store's update\<close>

lemma apply_set_Nil: "apply_set [] d = d"
  by (simp add: apply_set_def)

lemma apply_set_Cons: "apply_set ((k, v) # upd) d = apply_set upd (AList.update k v d)"
  by (simp add: apply_set_def)

lemma map_of_apply_set_other:
  "k \<notin> fst ` set upd \<Longrightarrow> map_of (apply_set upd d) k = map_of d k"
proof (induction upd arbitrary: d)
  case Nil
  then show ?case by (simp add: apply_set_Nil)
next
  case (Cons p upd)
  obtain k' v' where p: "p = (k', v')" by (cases p)
  from Cons.prems p have "k \<noteq> k'" and "k \<notin> fst ` set upd" by auto
  then show ?case
    using Cons.IH [of "AList.update k' v' d"] p
    by (simp add: apply_set_Cons update_conv')
qed

lemma map_of_apply_set_cases:
  "map_of (apply_set upd d) k = map_of d k
   \<or> (\<exists>v. (k, v) \<in> set upd \<and> map_of (apply_set upd d) k = Some v)"
proof (induction upd arbitrary: d)
  case Nil
  then show ?case by (simp add: apply_set_Nil)
next
  case (Cons p upd)
  obtain k' v' where p: "p = (k', v')" by (cases p)
  from Cons.IH [of "AList.update k' v' d"]
  show ?case
  proof
    assume a: "map_of (apply_set upd (AList.update k' v' d)) k = map_of (AList.update k' v' d) k"
    show ?thesis
    proof (cases "k = k'")
      case True
      with a p show ?thesis by (auto simp: apply_set_Cons update_conv')
    next
      case False
      with a p show ?thesis by (simp add: apply_set_Cons update_conv')
    qed
  next
    assume "\<exists>v. (k, v) \<in> set upd \<and> map_of (apply_set upd (AList.update k' v' d)) k = Some v"
    with p show ?thesis by (auto simp: apply_set_Cons)
  qed
qed

lemma map_of_apply_set_last:
  "map_of (apply_set (upd @ [(k, v)]) d) k = Some v"
  by (simp add: apply_set_def update_conv')

lemma update_first_rel:
  "list_all2 (\<lambda>d d'. d' = d \<or> (has_id oid d \<and> d' = apply_set upd d)) ds (fst (update_first oid upd ds))"
  by (induction ds) (auto simp: list_all2_refl list.rel_refl)

lemma update_first_count: "snd (update_first oid upd ds) \<le> 1"
  by (induction ds) auto

lemma update_first_none:
  "\<forall>d\<in>set ds. \<not> has_id oid d \<Longrightarrow> update_first oid upd ds = (ds, 0)"
  by (induction ds) auto

lemma update_first_modified:
  "snd (update_first oid upd ds) = 1 \<Longrightarrow>
     \<exists>d\<in>set ds. has_id oid d \<and> apply_set upd d \<in> set (fst (update_first oid upd ds))"
  by (induction ds) (auto split: if_splits)

lemma exclude_none_keys:
  "fst ` set (model_dump_exclude_none data) \<subseteq> {''phone'', ''country'', ''status'', ''note''}"
  by (auto simp: model_dump_exclude_none_def PhoneUpdate_model_dump_def)

lemma exclude_none_no_null:
  "(k, v) \<in> set (model_dump_exclude_none data) \<Longrightarrow> v \<noteq> Null"
  by (auto simp: model_dump_exclude_none_def)

lemma exclude_none_empty_iff:
  "model_dump_exclude_none data = [] \<longleftrightarrow>
     up_phone data = None \<and> up_country data = None \<and> up_status data = None \<and> up_note data = None"
  by (auto simp: model_dump_exclude_none_def PhoneUpdate_model_dump_def opt_val_def
      split: option.splits)


lemma update_set_keys:
  "fst ` set (update_set now data)
     \<subseteq> {''phone'', ''country'', ''status'', ''note'', ''updated_at''}"
  using exclude_none_keys [of data] by (auto simp: update_set_def)

lemma apply_update_set_id: "has_id oid d \<Longrightarrow> has_id oid (apply_set (update_set now data) d)"
proof -
  have "''_id'' \<notin> fst ` set (update_set now data)"
    using update_set_keys [of now data] by auto
  then show "has_id oid d \<Longrightarrow> has_id oid (apply_set (update_set now data) d)"
    by (simp add: has_id_def map_of_apply_set_other)
qed

lemma apply_update_set_time:
  "map_of (apply_set (update_set now data) d) ''updated_at'' = Some (Time now)"
  by (simp add: update_set_def map_of_apply_set_last)

lemma apply_update_set_null:
  assumes "map_of (apply_set (update_set now data) d) k = Some Null"
  shows "map_of d k = Some Null"
proof -
  have "\<not> (\<exists>v. (k, v) \<in> set (update_set now data)
           \<and> map_of (apply_set (update_set now data) d) k = Some v)"
    using assms exclude_none_no_null [of k _ data] by (auto simp: update_set_def)
  then show ?thesis
    using map_of_apply_set_cases [of "update_set now data" d k] assms by simp
qed

lemma update_phone_docs:
  "\<exists>s'. snd (update_phone ObjectId now (Some s) item_id data) = Some s'
     \<and> list_all2 (\<lambda>d d'. d' = d \<or> d' = apply_set (update_set now data) d) (docs s) (docs s')"
proof -
  have r: "list_all2 (\<lambda>d d'. d' = d \<or> d' = apply_set upd d) ds (fst (update_first oid upd ds))"
    for oid upd ds
    using update_first_rel [of oid upd ds] by (rule list_all2_mono) auto
  show ?thesis
    by (auto simp: update_phone_def update_one_def log_call_def update_set_def Let_def
          list_all2_refl r split: option.splits)
qed


section \<open>Update with fields\<close>

text \<open>
  C6. With the store handle established and the id class imported, an update with a
  well-formed id and at least one field supplied with a value (a field sent as \<open>null\<close> is
  read as \<open>None\<close>, the same as a field not sent) issues exactly one store call,
  \<open>update_one\<close>, whose update set carries \<open>updated_at\<close> at the current time next to the
  supplied fields, so that a record written gets its new \<open>updated_at\<close> in that same write.
  The response is the count of that call as the store gives it, 0 or 1: 0 when no record
  has the id, without any error for "not found".
\<close>

theorem update_phone_sets_updated_at:
  assumes "mk item_id = Some oid"
    and "\<not> (up_phone data = None \<and> up_country data = None
             \<and> up_status data = None \<and> up_note data = None)"
  shows "\<exists>n s'. update_phone (Some mk) now (Some s) item_id data = (Inr (Updated n), Some s')
           \<and> (n, s') = update_one s oid (update_set now data)
           \<and> map_of (update_set now data) ''updated_at'' = Some (Time now)
           \<and> calls s' = calls s @ [UpdateOne oid (update_set now data)]
           \<and> n \<le> 1
           \<and> list_all2 (\<lambda>d d'. d' = d \<or> (has_id oid d \<and> has_id oid d'
                  \<and> map_of d' ''updated_at'' = Some (Time now))) (docs s) (docs s')
           \<and> (n = 1 \<longrightarrow> (\<exists>d'\<in>set (docs s'). has_id oid d'
                  \<and> map_of d' ''updated_at'' = Some (Time now)))
           \<and> ((\<forall>d\<in>set (docs s). \<not> has_id oid d) \<longrightarrow> n = 0 \<and> docs s' = docs s)"
proof -
  let ?U = "update_set now data"
  let ?n = "snd (update_first oid ?U (docs s))"
  let ?s' = "log_call (UpdateOne oid ?U) (s\<lparr>docs := fst (update_first oid ?U (docs s))\<rparr>)"
  have ne: "model_dump_exclude_none data \<noteq> []"
    using assms(2) by (simp add: exclude_none_empty_iff)
  have run: "update_phone (Some mk) now (Some s) item_id data = (Inr (Updated ?n), Some ?s')"
    using assms(1) ne by (simp add: update_phone_def update_one_def update_set_def Let_def)
  have one: "(?n, ?s') = update_one s oid ?U"
    by (simp add: update_one_def)
  have stamp: "map_of ?U ''updated_at'' = Some (Time now)"
  proof -
    have "''updated_at'' \<notin> fst ` set (model_dump_exclude_none data)"
      using exclude_none_keys [of data] by auto
    then have "map_of (model_dump_exclude_none data) ''updated_at'' = None"
      by (simp add: map_of_eq_None_iff)
    then show ?thesis
      by (simp add: update_set_def map_add_def)
  qed
  have trace: "calls ?s' = calls s @ [UpdateOne oid ?U]"
    by (simp add: log_call_def)
  have count: "?n \<le> 1"
    by (rule update_first_count)
  have rel: "list_all2 (\<lambda>d d'. d' = d \<or> (has_id oid d \<and> has_id oid d'
                  \<and> map_of d' ''updated_at'' = Some (Time now))) (docs s) (docs ?s')"
  proof -
    have "list_all2 (\<lambda>d d'. d' = d \<or> (has_id oid d \<and> has_id oid d'
                  \<and> map_of d' ''updated_at'' = Some (Time now)))
            (docs s) (fst (update_first oid ?U (docs s)))"
      using update_first_rel [of oid ?U "docs s"]
      by (rule list_all2_mono) (auto simp: apply_update_set_id apply_update_set_time)
    then show ?thesis by (simp add: log_call_def)
  qed
  have written: "?n = 1 \<longrightarrow> (\<exists>d'\<in>set (docs ?s'). has_id oid d'
                  \<and> map_of d' ''updated_at'' = Some (Time now))"
  proof
    assume "?n = 1"
    then obtain d where "has_id oid d"
      and "apply_set ?U d \<in> set (fst (update_first oid ?U (docs s)))"
      using update_first_modified [of oid ?U "docs s"] by blast
    then show "\<exists>d'\<in>set (docs ?s'). has_id oid d' \<and> map_of d' ''updated_at'' = Some (Time now)"
      using apply_update_set_id [of oid d now data] apply_update_set_time [of now data d]
      by (auto simp: log_call_def)
  qed
  have missing: "(\<forall>d\<in>set (docs s). \<not> has_id oid d) \<longrightarrow> ?n = 0 \<and> docs ?s' = docs s"
    by (simp add: update_first_none log_call_def)
  show ?thesis
    using run one stamp trace count rel written missing by blast
qed

theorem update_phone_sets_updated_at_witness:
  "bson_ObjectId ''0123456789ABCDEF01234567'' = Some ''0123456789abcdef01234567''
   \<and> \<not> (up_phone note_update = None \<and> up_country note_update = None
          \<and> up_status note_update = None \<and> up_note note_update = None)
   \<and> update_phone (Some bson_ObjectId) 7 (Some store0) ''0123456789ABCDEF01234567'' note_update
       = (Inr (Updated 1),
          Some \<lparr>docs =
                  [[(''_id'', Oid ''0123456789abcdef01234567''), (''phone'', Str ''555-1234''),
                    (''country'', Null), (''status'', Str ''review''), (''note'', Str ''called''),
                    (''created_at'', Time 1), (''updated_at'', Time 7)],
                   rec_b, rec_c],
                calls =
                  [UpdateOne ''0123456789abcdef01234567''
                     [(''status'', Str ''review''), (''note'', Str ''called''),
                      (''updated_at'', Time 7)]]\<rparr>)"
proof -
  have h: "bson_ObjectId ''0123456789ABCDEF01234567'' = Some ''0123456789abcdef01234567''"
    by (simp add: bson_ObjectId_def lower_def)
  have f: "\<not> (up_phone note_update = None \<and> up_country note_update = None
          \<and> up_status note_update = None \<and> up_note note_update = None)"
    by (simp add: note_update_def)
  have u: "update_set 7 note_update
             = [(''status'', Str ''review''), (''note'', Str ''called''), (''updated_at'', Time 7)]"
    by (simp add: update_set_def model_dump_exclude_none_def PhoneUpdate_model_dump_def
          note_update_def opt_val_def)
  show ?thesis
    using h f update_phone_sets_updated_at [where mk = bson_ObjectId
        and item_id = "''0123456789ABCDEF01234567''" and oid = "''0123456789abcdef01234567''"
        and data = note_update and now = 7 and s = store0]
    by (simp add: u update_one_def log_call_def store0_def rec_a_def has_id_def apply_set_def)
qed

section \<open>Bulk create\<close>

lemma bulk_loop_result:
  "fst (bulk_loop S R now nid i xs ins s)
     = ins @ map (\<lambda>(j, it). nid j) (filter (\<lambda>(j, it). item_ok S R it) (enumerate i xs))
   \<and> docs (snd (bulk_loop S R now nid i xs ins s))
     = docs s @ map (\<lambda>(j, it). stored_doc (now j) (nid j) it)
                  (filter (\<lambda>(j, it). item_ok S R it) (enumerate i xs))"
proof (induction xs arbitrary: i ins s)
  case Nil
  show ?case by simp
next
  case (Cons x xs)
  show ?case
  proof (cases "item_ok S R x")
    case True
    then show ?thesis
      using Cons.IH [of "Suc i"]
      by (simp add: item_ok_def create_document_def log_call_def stored_doc_def Let_def)
  next
    case False
    then show ?thesis
      using Cons.IH [of "Suc i"]
      by (auto simp: item_ok_def create_document_def log_call_def Let_def)
  qed
qed

lemma length_filter_enumerate:
  "length (filter (\<lambda>(j, it). P it) (enumerate i xs)) = length (filter P xs)"
  by (induction xs arbitrary: i) simp_all

text \<open>
  C1. With the store handle established, a bulk create of N items never raises: it
  returns the ids of the items that pass the schema and that the store accepts, in order,
  and \<open>count\<close> is their number, N minus the number K of items that fail. A failing item
  is skipped without trace in the response. Every accepted item is in the store
  afterwards, behind the records that were there, whether or not a failing item came
  after it: nothing is rolled back.
\<close>

theorem bulk_inserts_all_valid_items:
  "\<exists>inserted s'.
     add_phones_bulk S R now nid (Some s) payload
       = (Inr (Inserted inserted (length inserted)), Some s')
     \<and> length inserted
         = length (items payload) - length (filter (\<lambda>it. \<not> item_ok S R it) (items payload))
     \<and> inserted = map (\<lambda>(j, it). nid j)
                     (filter (\<lambda>(j, it). item_ok S R it) (enumerate 0 (items payload)))
     \<and> docs s' = docs s @ map (\<lambda>(j, it). stored_doc (now j) (nid j) it)
                     (filter (\<lambda>(j, it). item_ok S R it) (enumerate 0 (items payload)))"
proof -
  let ?r = "bulk_loop S R now nid 0 (items payload) [] s"
  let ?ok = "filter (\<lambda>(j, it). item_ok S R it) (enumerate 0 (items payload))"
  have run: "add_phones_bulk S R now nid (Some s) payload
               = (Inr (Inserted (fst ?r) (length (fst ?r))), Some (snd ?r))"
    by (simp add: add_phones_bulk_def split: prod.splits)
  have ids: "fst ?r = map (\<lambda>(j, it). nid j) ?ok"
    using bulk_loop_result [of S R now nid 0 "items payload" "[]" s] by simp
  have stored: "docs (snd ?r) = docs s @ map (\<lambda>(j, it). stored_doc (now j) (nid j) it) ?ok"
    using bulk_loop_result [of S R now nid 0 "items payload" "[]" s] by simp
  have "length (fst ?r) = length (filter (item_ok S R) (items payload))"
    by (simp add: ids length_filter_enumerate)
  moreover have "length (filter (item_ok S R) (items payload))
      + length (filter (\<lambda>it. \<not> item_ok S R it) (items payload)) = length (items payload)"
    by (rule sum_length_filter_compl)
  ultimately have count: "length (fst ?r)
      = length (items payload) - length (filter (\<lambda>it. \<not> item_ok S R it) (items payload))"
    by simp
  show ?thesis
    using run ids stored count by blast
qed

theorem bulk_inserts_all_valid_items_witness:
  "length (items bulk0) = 3
   \<and> length (filter (\<lambda>it. \<not> item_ok schema0 (\<lambda>d. False) it) (items bulk0)) = 1
   \<and> fst (add_phones_bulk schema0 (\<lambda>d. False) clock0 ids0 (Some store0) bulk0)
       = Inr (Inserted [''65a000000000000000000000'', ''65a000000000000000000002''] 2)
   \<and> map_option docs (snd (add_phones_bulk schema0 (\<lambda>d. False) clock0 ids0 (Some store0) bulk0))
       = Some [rec_a, rec_b, rec_c,
               stored_doc 10 ''65a000000000000000000000'' item_good,
               stored_doc 12 ''65a000000000000000000002'' item_late]"
proof -
  have ok: "item_ok schema0 (\<lambda>d. False) item_good" "\<not> item_ok schema0 (\<lambda>d. False) item_bad"
    "item_ok schema0 (\<lambda>d. False) item_late"
    by (simp_all add: item_ok_def schema0_def PhoneIn_model_dump_def item_good_def
          item_bad_def item_late_def)
  show ?thesis
    using bulk_inserts_all_valid_items [of schema0 "\<lambda>d. False" clock0 ids0 store0 bulk0]
    by (auto simp: bulk0_def ok clock0_def ids0_def store0_def)
qed

section \<open>Null fields in an update\<close>

lemma validate_nulls_dropped: "PhoneUpdate_validate (nulls_dropped b) = PhoneUpdate_validate b"
  by (simp add: PhoneUpdate_validate_def nulls_dropped_def split: body_field.splits)

lemma update_set_skips_none:
  "up_phone data = None \<Longrightarrow> ''phone'' \<notin> fst ` set (update_set now data)"
  "up_country data = None \<Longrightarrow> ''country'' \<notin> fst ` set (update_set now data)"
  "up_status data = None \<Longrightarrow> ''status'' \<notin> fst ` set (update_set now data)"
  "up_note data = None \<Longrightarrow> ''note'' \<notin> fst ` set (update_set now data)"
  by (auto simp: update_set_def model_dump_exclude_none_def PhoneUpdate_model_dump_def
        opt_val_def)

lemma update_phone_frame:
  assumes "k \<notin> fst ` set (update_set now data)"
    and "snd (update_phone ObjectId now (Some s) item_id data) = Some s'"
  shows "list_all2 (\<lambda>d d'. map_of d' k = map_of d k) (docs s) (docs s')"
proof -
  obtain t where t: "snd (update_phone ObjectId now (Some s) item_id data) = Some t"
    and rel: "list_all2 (\<lambda>d d'. d' = d \<or> d' = apply_set (update_set now data) d)
                (docs s) (docs t)"
    using update_phone_docs [of ObjectId now s item_id data] by blast
  from t assms(2) have "t = s'" by simp
  with rel have "list_all2 (\<lambda>d d'. d' = d \<or> d' = apply_set (update_set now data) d)
                (docs s) (docs s')"
    by simp
  then show ?thesis
    by (rule list_all2_mono) (auto simp: map_of_apply_set_other [OF assms(1)])
qed

lemma update_phone_no_new_null:
  assumes "snd (update_phone ObjectId now (Some s) item_id data) = Some s'"
  shows "list_all2 (\<lambda>d d'. \<forall>k. map_of d' k = Some Null \<longrightarrow> map_of d k = Some Null)
           (docs s) (docs s')"
proof -
  obtain t where t: "snd (update_phone ObjectId now (Some s) item_id data) = Some t"
    and rel: "list_all2 (\<lambda>d d'. d' = d \<or> d' = apply_set (update_set now data) d)
                (docs s) (docs t)"
    using update_phone_docs [of ObjectId now s item_id data] by blast
  from t assms have "t = s'" by simp
  with rel have "list_all2 (\<lambda>d d'. d' = d \<or> d' = apply_set (update_set now data) d)
                (docs s) (docs s')"
    by simp
  then show ?thesis
    by (rule list_all2_mono) (auto dest: apply_update_set_null)
qed

text \<open>
  C10. In an update, a field sent as \<open>null\<close> counts as a field not sent: the request
  object, and with it the whole outcome of the handler, is the same as for the body with
  that field left out; the update set never holds a \<open>null\<close>; the stored value of such a
  field is the same after the update in every record; and no record has a \<open>null\<close> after
  the update where it had none before, so an update cannot clear a field.
\<close>

theorem null_field_is_omitted:
  "PhoneUpdate_validate (nulls_dropped b) = PhoneUpdate_validate b
   \<and> update_phone ObjectId now db item_id (PhoneUpdate_validate (nulls_dropped b))
       = update_phone ObjectId now db item_id (PhoneUpdate_validate b)
   \<and> (\<forall>k v. (k, v) \<in> set (model_dump_exclude_none (PhoneUpdate_validate b)) \<longrightarrow> v \<noteq> Null)
   \<and> (\<exists>s'. snd (update_phone ObjectId now (Some s) item_id (PhoneUpdate_validate b)) = Some s'
        \<and> list_all2 (\<lambda>d d'. \<forall>k. map_of d' k = Some Null \<longrightarrow> map_of d k = Some Null)
            (docs s) (docs s')
        \<and> (body_phone b = JNull \<longrightarrow>
             list_all2 (\<lambda>d d'. map_of d' ''phone'' = map_of d ''phone'') (docs s) (docs s'))
        \<and> (body_country b = JNull \<longrightarrow>
             list_all2 (\<lambda>d d'. map_of d' ''country'' = map_of d ''country'') (docs s) (docs s'))
        \<and> (body_status b = JNull \<longrightarrow>
             list_all2 (\<lambda>d d'. map_of d' ''status'' = map_of d ''status'') (docs s) (docs s'))
        \<and> (body_note b = JNull \<longrightarrow>
             list_all2 (\<lambda>d d'. map_of d' ''note'' = map_of d ''note'') (docs s) (docs s')))"
proof -
  let ?data = "PhoneUpdate_validate b"
  obtain s' where s': "snd (update_phone ObjectId now (Some s) item_id ?data) = Some s'"
    using update_phone_docs [of ObjectId now s item_id ?data] by blast
  have same: "PhoneUpdate_validate (nulls_dropped b) = ?data"
    by (rule validate_nulls_dropped)
  have nonull: "\<forall>k v. (k, v) \<in> set (model_dump_exclude_none ?data) \<longrightarrow> v \<noteq> Null"
    using exclude_none_no_null by blast
  have kept: "list_all2 (\<lambda>d d'. \<forall>k. map_of d' k = Some Null \<longrightarrow> map_of d k = Some Null)
                (docs s) (docs s')"
    using s' by (rule update_phone_no_new_null)
  have f_phone: "body_phone b = JNull \<longrightarrow>
      list_all2 (\<lambda>d d'. map_of d' ''phone'' = map_of d ''phone'') (docs s) (docs s')"
  proof
    assume "body_phone b = JNull"
    then have "up_phone ?data = None" by (simp add: PhoneUpdate_validate_def)
    then show "list_all2 (\<lambda>d d'. map_of d' ''phone'' = map_of d ''phone'') (docs s) (docs s')"
      using s' by (intro update_phone_frame update_set_skips_none(1))
  qed
  have f_country: "body_country b = JNull \<longrightarrow>
      list_all2 (\<lambda>d d'. map_of d' ''country'' = map_of d ''country'') (docs s) (docs s')"
  proof
    assume "body_country b = JNull"
    then have "up_country ?data = None" by (simp add: PhoneUpdate_validate_def)
    then show "list_all2 (\<lambda>d d'. map_of d' ''country'' = map_of d ''country'') (docs s) (docs s')"
      using s' by (intro update_phone_frame update_set_skips_none(2))
  qed
  have f_status: "body_status b = JNull \<longrightarrow>
      list_all2 (\<lambda>d d'. map_of d' ''status'' = map_of d ''status'') (docs s) (docs s')"
  proof
    assume "body_status b = JNull"
    then have "up_status ?data = None" by (simp add: PhoneUpdate_validate_def)
    then show "list_all2 (\<lambda>d d'. map_of d' ''status'' = map_of d ''status'') (docs s) (docs s')"
      using s' by (intro update_phone_frame update_set_skips_none(3))
  qed
  have f_note: "body_note b = JNull \<longrightarrow>
      list_all2 (\<lambda>d d'. map_of d' ''note'' = map_of d ''note'') (docs s) (docs s')"
  proof
    assume "body_note b = JNull"
    then have "up_note ?data = None" by (simp add: PhoneUpdate_validate_def)
    then show "list_all2 (\<lambda>d d'. map_of d' ''note'' = map_of d ''note'') (docs s) (docs s')"
      using s' by (intro update_phone_frame update_set_skips_none(4))
  qed
  show ?thesis
    using same nonull s' kept f_phone f_country f_status f_note by auto
qed

theorem null_field_is_omitted_witness:
  "body_country null_body = JNull \<and> body_note null_body = JNull
   \<and> update_phone (Some bson_ObjectId) 7 (Some store0) ''0123456789abcdef01234568''
         (PhoneUpdate_validate null_body)
       = (Inr (Updated 1),
          Some \<lparr>docs =
                  [rec_a,
                   [(''_id'', Oid ''0123456789abcdef01234568''), (''phone'', Str ''+1 202 0100''),
                    (''country'', Str ''US''), (''status'', Str ''review''),
                    (''note'', Str ''see 555, again''), (''created_at'', Time 2),
                    (''updated_at'', Time 7)],
                   rec_c],
                calls =
                  [UpdateOne ''0123456789abcdef01234568''
                     [(''status'', Str ''review''), (''updated_at'', Time 7)]]\<rparr>)"
proof -
  have u: "model_dump_exclude_none (PhoneUpdate_validate null_body)
             = [(''status'', Str ''review'')]"
    by (simp add: model_dump_exclude_none_def PhoneUpdate_model_dump_def
          PhoneUpdate_validate_def null_body_def opt_val_def)
  have h: "bson_ObjectId ''0123456789abcdef01234568'' = Some ''0123456789abcdef01234568''"
    by (simp add: bson_ObjectId_def lower_def)
  have b: "body_country null_body = JNull" "body_note null_body = JNull"
    by (simp_all add: null_body_def)
  have run: "update_phone (Some bson_ObjectId) 7 (Some store0) ''0123456789abcdef01234568''
         (PhoneUpdate_validate null_body)
       = (Inr (Updated 1),
          Some \<lparr>docs =
                  [rec_a,
                   [(''_id'', Oid ''0123456789abcdef01234568''), (''phone'', Str ''+1 202 0100''),
                    (''country'', Str ''US''), (''status'', Str ''review''),
                    (''note'', Str ''see 555, again''), (''created_at'', Time 2),
                    (''updated_at'', Time 7)],
                   rec_c],
                calls =
                  [UpdateOne ''0123456789abcdef01234568''
                     [(''status'', Str ''review''), (''updated_at'', Time 7)]]\<rparr>)"
    by (simp add: update_phone_def Let_def h u update_one_def log_call_def store0_def
          rec_a_def rec_b_def has_id_def apply_set_def)
  show ?thesis
    using null_field_is_omitted [of null_body "Some bson_ObjectId" 7 "Some store0"
        "''0123456789abcdef01234568''" store0] b run
    by simp
qed

section \<open>Free-text query\<close>

text \<open>
  For a query without regular-expression metacharacters the filter the handlers build is
  the substring match of the spec.
\<close>

lemma match_here_literal:
  "match_here (map Lit q) s = prefix (map lower q) (map lower s)"
proof (induction q arbitrary: s)
  case Nil
  show ?case by simp
next
  case (Cons c q)
  show ?case by (cases s) (simp_all add: Cons.IH)
qed

lemma regex_search_literal:
  "regex_search (map Lit q) s = contains_ci q s"
proof (induction s)
  case Nil
  show ?case by (cases q) (simp_all add: contains_ci_def)
next
  case (Cons c s)
  then show ?case
    by (simp add: contains_ci_def match_here_literal sublist_Cons_right)
qed

lemma parse_atoms_literal:
  "\<forall>c\<in>set q. c \<notin> set metachars \<Longrightarrow> parse_atoms q = Some (map Lit q)"
proof (induction q)
  case Nil
  show ?case by simp
next
  case (Cons c q)
  then have "c \<noteq> CHR ''.''" by (auto simp: metachars_def)
  with Cons show ?case by simp
qed

lemma literal_query_is_substring_match:
  assumes "q \<noteq> []" and "\<forall>c\<in>set q. c \<notin> set metachars"
  shows "\<exists>p. compile_flt other (phones_filter None (Some q)) = Some p
            \<and> (\<forall>d. p d = spec_matches q d)"
proof -
  have c: "regex_compile other q ''i'' = Some (regex_search (map Lit q))"
    using assms(2) by (simp add: regex_compile_def parse_atoms_literal)
  show ?thesis
    using assms(1)
    by (auto simp: phones_filter_def c spec_matches_def field_contains_def regex_search_literal
          split: option.splits val.splits)
qed

text \<open>
  C5. The claim fails where the query holds a metacharacter: the handlers hand \<open>q\<close> to the
  store as a regular expression, unescaped. The query \<open>555.1234\<close> is no substring of the
  phone \<open>555-1234\<close>, nor of any other field of that record, and yet both the list and
  the export return the record, the dot standing for any character.
\<close>

theorem regex_query_is_not_substring_match:
  "\<not> spec_matches ''555.1234'' rec_a
   \<and> fst (list_phones other iso0 (Some store0) None (Some ''555.1234'') (Some 500))
       = Inr (Items [convert_doc iso0 rec_a])
   \<and> fst (export_phones other iso0 (Some store0) None (Some ''555.1234''))
       = Inr (Csv (''phone,country,status,note'' @ [CHR 0x0D, CHR 0x0A]
                   @ ''555-1234,,has_fb,'' @ [CHR 0x0D, CHR 0x0A]))"
proof -
  have spec: "\<not> spec_matches ''555.1234'' rec_a"
    by (simp add: spec_matches_def field_contains_def contains_ci_def rec_a_def lower_def
          sublist_code)
  have c: "regex_compile other ''555.1234'' ''i''
             = Some (regex_search [Lit CHR ''5'', Lit CHR ''5'', Lit CHR ''5'', AnyChar,
                       Lit CHR ''1'', Lit CHR ''2'', Lit CHR ''3'', Lit CHR ''4''])"
    by (simp add: regex_compile_def metachars_def)
  have rows: "find_docs other store0 (phones_filter None (Some ''555.1234''))
                = (Inr [rec_a], log_call (Find (phones_filter None (Some ''555.1234''))) store0)"
    by (simp add: find_docs_def phones_filter_def c store0_def rec_a_def rec_b_def rec_c_def
          lower_def log_call_def)
  have l: "fst (list_phones other iso0 (Some store0) None (Some ''555.1234'') (Some 500))
       = Inr (Items [convert_doc iso0 rec_a])"
    by (simp add: list_phones_def get_documents_def rows)
  have e: "fst (export_phones other iso0 (Some store0) None (Some ''555.1234''))
       = Inr (Csv (''phone,country,status,note'' @ [CHR 0x0D, CHR 0x0A]
                   @ ''555-1234,,has_fb,'' @ [CHR 0x0D, CHR 0x0A]))"
    by (simp add: export_phones_def rows writerow_def headers_def csv_field_def csv_text_def
          csv_special_def export_row_def dict_get_def rec_a_def)
  show ?thesis using spec l e by simp
qed

section \<open>Export\<close>

subsection \<open>The writer's rows are read back as they were written\<close>

lemma read_quoted:
  "csv_read_from Quoted fld row
     (concat (map (\<lambda>c. if c = CHR 0x22 then [c, c] else [c]) f) @ CHR 0x22 # rest)
   = csv_read_from Closing (fld @ f) row rest"
  by (induction f arbitrary: fld) simp_all

lemma read_plain:
  "\<not> list_ex csv_special f \<Longrightarrow>
   csv_read_from Plain fld row (f @ rest) = csv_read_from Plain (fld @ f) row rest"
  by (induction f arbitrary: fld) (simp_all add: csv_special_def)

lemma read_field_comma:
  "csv_read_from Plain [] row (csv_field f @ CHR '','' # rest)
   = csv_read_from Plain [] (row @ [f]) rest"
  by (simp add: csv_field_def read_quoted read_plain)

lemma read_field_crlf:
  "csv_read_from Plain [] row (csv_field f @ CHR 0x0D # CHR 0x0A # rest)
   = map_option ((#) (row @ [f])) (csv_read_from Plain [] [] rest)"
  by (simp add: csv_field_def read_quoted read_plain)

lemma read_row:
  "fs \<noteq> [] \<Longrightarrow>
   csv_read_from Plain [] row (join_fields (map csv_field fs) @ CHR 0x0D # CHR 0x0A # rest)
   = map_option ((#) (row @ fs)) (csv_read_from Plain [] [] rest)"
proof (induction fs arbitrary: row)
  case Nil
  then show ?case by simp
next
  case (Cons f fs)
  show ?case
  proof (cases fs)
    case Nil
    then show ?thesis by (simp add: read_field_crlf)
  next
    case (Cons g gs)
    with Cons.IH [of "row @ [f]"] show ?thesis by (simp add: read_field_comma)
  qed
qed

lemma read_rows:
  "\<forall>fs\<in>set rows. fs \<noteq> [] \<Longrightarrow>
   csv_read_from Plain [] []
     (concat (map (\<lambda>fs. join_fields (map csv_field fs) @ [CHR 0x0D, CHR 0x0A]) rows))
   = Some rows"
  by (induction rows) (simp_all add: read_row)

subsection \<open>What an export returns when the store accepts the query\<close>

text \<open>
  The handler returns the header row and one row for each record the store selects, all of
  them, in the store's order. A reader of CSV finds in that text exactly those rows, each
  with the four fields of the header, a field the record lacks (or holds as \<open>null\<close>)
  being empty. For a literal query the store accepts the filter whatever its engine, and
  the records selected are those of the spec.
\<close>

lemma foldl_append_concat:
  "foldl (\<lambda>out r. out @ f r) init rows = init @ concat (map f rows)"
  by (induction rows arbitrary: init) simp_all

lemma csv_text_export_row:
  "map (csv_text isoformat) (export_row r) = map (cell isoformat r) headers"
  by (simp add: export_row_def headers_def cell_def dict_get_def csv_text_def
        split: option.splits val.splits)

lemma export_text_rows:
  "export_text isoformat rows
     = concat (map (\<lambda>fs. join_fields (map csv_field fs) @ [CHR 0x0D, CHR 0x0A])
                 (headers # map (\<lambda>r. map (cell isoformat r) headers) rows))"
proof -
  have h: "writerow isoformat (map Str headers)
             = join_fields (map csv_field headers) @ [CHR 0x0D, CHR 0x0A]"
    by (simp add: writerow_def headers_def csv_text_def)
  have r: "writerow isoformat (export_row r)
             = join_fields (map csv_field (map (cell isoformat r) headers)) @ [CHR 0x0D, CHR 0x0A]"
    for r
    unfolding csv_text_export_row [symmetric] by (simp add: writerow_def)
  show ?thesis
    unfolding export_text_def h r by (simp add: comp_def)
qed

lemma csv_read_export_text:
  "csv_read (export_text isoformat rows)
     = Some (headers # map (\<lambda>r. map (cell isoformat r) headers) rows)"
  unfolding csv_read_def export_text_rows
  by (rule read_rows) (auto simp: headers_def)

lemma literal_query_accepted:
  assumes "literal_query q"
  shows "compile_flt other (phones_filter status q) = Some (export_selects status q)"
proof -
  have c: "regex_compile other pat ''i'' = Some (regex_search (map Lit pat))"
    if "q = Some pat" for pat
    using assms that
    by (simp add: regex_compile_def parse_atoms_literal literal_query_def list_all_iff)
  show ?thesis
    by (cases status; cases q)
       (auto simp: phones_filter_def c export_selects_def spec_matches_def field_contains_def
          regex_search_literal fun_eq_iff split: option.splits val.splits)
qed

lemma export_returns_csv:
  assumes "compile_flt other (phones_filter status q) = Some p"
  shows "export_phones other isoformat (Some s) status q
           = (Inr (Csv (export_text isoformat (filter p (docs s)))),
              Some (log_call (Find (phones_filter status q)) s))"
    and "csv_read (export_text isoformat (filter p (docs s)))
           = Some (headers # map (\<lambda>r. map (cell isoformat r) headers) (filter p (docs s)))"
    and "literal_query q \<Longrightarrow> p = export_selects status q"
    and "status = Some st \<Longrightarrow> st \<noteq> [] \<Longrightarrow> p d \<Longrightarrow> map_of d ''status'' = Some (Str st)"
proof -
  show "export_phones other isoformat (Some s) status q
           = (Inr (Csv (export_text isoformat (filter p (docs s)))),
              Some (log_call (Find (phones_filter status q)) s))"
    using assms
    by (simp add: export_phones_def find_docs_def foldl_append_concat export_text_def)
  show "csv_read (export_text isoformat (filter p (docs s)))
           = Some (headers # map (\<lambda>r. map (cell isoformat r) headers) (filter p (docs s)))"
    by (rule csv_read_export_text)
  show "p = export_selects status q" if "literal_query q"
    using assms literal_query_accepted [OF that, of other status] by simp
  show "map_of d ''status'' = Some (Str st)" if "status = Some st" "st \<noteq> []" "p d"
    using assms that by (auto simp: phones_filter_def split: option.splits if_splits)
qed

lemma export_returns_csv_example:
  "fst (export_phones other iso0 (Some store0) None (Some ''555''))
     = Inr (Csv (''phone,country,status,note'' @ [CHR 0x0D, CHR 0x0A]
                 @ ''555-1234,,has_fb,'' @ [CHR 0x0D, CHR 0x0A]
                 @ ''+1 202 0100,US,unknown,'' @ [CHR 0x22] @ ''see 555, again'' @ [CHR 0x22]
                 @ [CHR 0x0D, CHR 0x0A]))"
  "csv_read (''phone,country,status,note'' @ [CHR 0x0D, CHR 0x0A]
                 @ ''555-1234,,has_fb,'' @ [CHR 0x0D, CHR 0x0A]
                 @ ''+1 202 0100,US,unknown,'' @ [CHR 0x22] @ ''see 555, again'' @ [CHR 0x22]
                 @ [CHR 0x0D, CHR 0x0A])
     = Some [[''phone'', ''country'', ''status'', ''note''],
             [''555-1234'', [], ''has_fb'', []],
             [''+1 202 0100'', ''US'', ''unknown'', ''see 555, again'']]"
proof -
  have l: "literal_query (Some ''555'')"
    by (simp add: literal_query_def metachars_def)
  have rows: "filter (export_selects None (Some ''555'')) (docs store0) = [rec_a, rec_b]"
    by (simp add: export_selects_def spec_matches_def field_contains_def contains_ci_def
          store0_def rec_a_def rec_b_def rec_c_def lower_def sublist_code)
  have body: "export_text iso0 [rec_a, rec_b]
     = ''phone,country,status,note'' @ [CHR 0x0D, CHR 0x0A]
                 @ ''555-1234,,has_fb,'' @ [CHR 0x0D, CHR 0x0A]
                 @ ''+1 202 0100,US,unknown,'' @ [CHR 0x22] @ ''see 555, again'' @ [CHR 0x22]
                 @ [CHR 0x0D, CHR 0x0A]"
    by (simp add: export_text_def writerow_def headers_def export_row_def dict_get_def
          csv_field_def csv_text_def csv_special_def rec_a_def rec_b_def)
  have cells: "map (\<lambda>r. map (cell iso0 r) headers) [rec_a, rec_b]
     = [[''555-1234'', [], ''has_fb'', []],
        [''+1 202 0100'', ''US'', ''unknown'', ''see 555, again'']]"
    by (simp add: cell_def headers_def rec_a_def rec_b_def)
  have a: "compile_flt other (phones_filter None (Some ''555''))
             = Some (export_selects None (Some ''555''))"
    using l by (rule literal_query_accepted)
  note e1 = export_returns_csv(1) [where other = other and status = None and q = "Some ''555''"
      and p = "export_selects None (Some ''555'')" and isoformat = iso0 and s = store0, OF a]
  note e2 = export_returns_csv(2) [where other = other and status = None and q = "Some ''555''"
      and p = "export_selects None (Some ''555'')" and isoformat = iso0 and s = store0, OF a]
  show "fst (export_phones other iso0 (Some store0) None (Some ''555''))
     = Inr (Csv (''phone,country,status,note'' @ [CHR 0x0D, CHR 0x0A]
                 @ ''555-1234,,has_fb,'' @ [CHR 0x0D, CHR 0x0A]
                 @ ''+1 202 0100,US,unknown,'' @ [CHR 0x22] @ ''see 555, again'' @ [CHR 0x22]
                 @ [CHR 0x0D, CHR 0x0A]))"
    unfolding e1 rows body by simp
  show "csv_read (''phone,country,status,note'' @ [CHR 0x0D, CHR 0x0A]
                 @ ''555-1234,,has_fb,'' @ [CHR 0x0D, CHR 0x0A]
                 @ ''+1 202 0100,US,unknown,'' @ [CHR 0x22] @ ''see 555, again'' @ [CHR 0x22]
                 @ [CHR 0x0D, CHR 0x0A])
     = Some [[''phone'', ''country'', ''status'', ''note''],
             [''555-1234'', [], ''has_fb'', []],
             [''+1 202 0100'', ''US'', ''unknown'', ''see 555, again'']]"
    using e2 unfolding rows body cells by (simp add: headers_def)
qed

subsection \<open>Queries that are not literal\<close>

text \<open>
  C7. An export does not answer every request with a CSV document of the records that
  match. The query goes to the store as a regular expression, unescaped (the defect of
  C5). The query \<open>(\<close> is no regular expression: the store refuses it, the handler does
  not catch that, and the request ends in an error instead of a document. The query
  \<open>2.2\<close> occurs in no field of the record with the phone \<open>+1 202 0100\<close>, and the
  export still holds a row for that record.
\<close>

theorem export_of_pattern_query:
  "fst (export_phones no_other_regex iso0 (Some store0) None (Some ''(''))
     = Inl OperationFailure
   \<and> \<not> spec_matches ''2.2'' rec_b
   \<and> fst (export_phones other iso0 (Some store0) None (Some ''2.2''))
       = Inr (Csv (''phone,country,status,note'' @ [CHR 0x0D, CHR 0x0A]
                   @ ''+1 202 0100,US,unknown,'' @ [CHR 0x22] @ ''see 555, again'' @ [CHR 0x22]
                   @ [CHR 0x0D, CHR 0x0A]))"
proof -
  have refused: "compile_flt no_other_regex (phones_filter None (Some ''('')) = None"
    by (simp add: phones_filter_def regex_compile_def metachars_def no_other_regex_def)
  have raise: "fst (export_phones no_other_regex iso0 (Some store0) None (Some ''(''))
     = Inl OperationFailure"
    by (simp add: export_phones_def find_docs_def refused)
  have spec: "\<not> spec_matches ''2.2'' rec_b"
    by (simp add: spec_matches_def field_contains_def contains_ci_def rec_b_def lower_def
          sublist_code)
  have c: "regex_compile other ''2.2'' ''i''
             = Some (regex_search [Lit CHR ''2'', AnyChar, Lit CHR ''2''])"
    by (simp add: regex_compile_def metachars_def)
  have rows: "find_docs other store0 (phones_filter None (Some ''2.2''))
                = (Inr [rec_b], log_call (Find (phones_filter None (Some ''2.2''))) store0)"
    by (simp add: find_docs_def phones_filter_def c store0_def rec_a_def rec_b_def rec_c_def
          lower_def log_call_def)
  have e: "fst (export_phones other iso0 (Some store0) None (Some ''2.2''))
       = Inr (Csv (''phone,country,status,note'' @ [CHR 0x0D, CHR 0x0A]
                   @ ''+1 202 0100,US,unknown,'' @ [CHR 0x22] @ ''see 555, again'' @ [CHR 0x22]
                   @ [CHR 0x0D, CHR 0x0A]))"
    by (simp add: export_phones_def rows writerow_def headers_def csv_field_def csv_text_def
          csv_special_def export_row_def dict_get_def rec_b_def)
  show ?thesis using raise spec e by simp
qed

end
